theory Spec2Isabelle
  imports Complex_Main
begin

section \<open>Flappy Biry: the game loop of \<^verbatim>\<open>flappy_biry.py\<close>\<close>

text \<open>
  The program is one module: constants, five pure-looking helpers over a list of pipe
  dictionaries, and a \<^verbatim>\<open>while running:\<close> loop that reads events, advances the bird and
  the pipes, tests collisions, scores and draws. The embedding keeps the module's names.

  Numbers. \<^verbatim>\<open>gravity = 0.5\<close> is a Python float, so \<^verbatim>\<open>bird_velocity\<close> and
  \<^verbatim>\<open>bird_y\<close> become floats at the first active tick. Every value they take is an integer
  multiple of one half, far below \<open>2^52\<close>, where binary floating point adds and compares
  exactly; they are modelled as rationals. All other numbers are Python ints.
\<close>

subsection \<open>Game constants (lines 9-15, 36-46)\<close>

definition SCREEN_WIDTH :: int where "SCREEN_WIDTH = 600"
definition SCREEN_HEIGHT :: int where "SCREEN_HEIGHT = 800"
definition GROUND_HEIGHT :: int where "GROUND_HEIGHT = 100"
definition PIPE_WIDTH :: int where "PIPE_WIDTH = 80"
definition PIPE_GAP :: int where "PIPE_GAP = 200"
definition PIPE_SPAWN_INTERVAL :: int where "PIPE_SPAWN_INTERVAL = 1500"
definition PIPE_SPEED :: int where "PIPE_SPEED = 3"

definition bird_width :: int where "bird_width = 40"
definition bird_height :: int where "bird_height = 30"
definition bird_x :: int where "bird_x = 100"
definition gravity :: rat where "gravity = 1 / 2"
definition jump_power :: rat where "jump_power = - 9"

definition ground_y :: int where "ground_y = SCREEN_HEIGHT - GROUND_HEIGHT"

subsection \<open>Rectangles of the windowing library\<close>

text \<open>
  \<^verbatim>\<open>pygame.Rect(left, top, width, height)\<close> stores four C ints. A float argument is
  converted by a C cast, which truncates toward zero (\<open>int_of_float\<close>).
  \<^verbatim>\<open>bottom\<close> is \<open>top + height\<close> and \<^verbatim>\<open>right\<close> is \<open>left + width\<close>.
  \<^verbatim>\<open>colliderect\<close> is true when the two rectangles overlap in both axes, edges excluded,
  and false whenever one of them has a zero width or height.
\<close>

record rect =
  left :: int
  top :: int
  width :: int
  height :: int

definition Rect :: "int \<Rightarrow> int \<Rightarrow> int \<Rightarrow> int \<Rightarrow> rect" where
  "Rect l t w h = \<lparr>left = l, top = t, width = w, height = h\<rparr>"

definition int_of_float :: "rat \<Rightarrow> int" where
  "int_of_float q = (if 0 \<le> q then \<lfloor>q\<rfloor> else \<lceil>q\<rceil>)"

definition bottom :: "rect \<Rightarrow> int" where
  "bottom r = top r + height r"

definition right :: "rect \<Rightarrow> int" where
  "right r = left r + width r"

definition colliderect :: "rect \<Rightarrow> rect \<Rightarrow> bool" where
  "colliderect a b =
     (if width a = 0 \<or> height a = 0 \<or> width b = 0 \<or> height b = 0 then False
      else min (left a) (left a + width a) < max (left b) (left b + width b)
         \<and> min (top a) (top a + height a) < max (top b) (top b + height b)
         \<and> max (left a) (left a + width a) > min (left b) (left b + width b)
         \<and> max (top a) (top a + height a) > min (top b) (top b + height b))"

subsection \<open>Pipes (lines 60-115)\<close>

text \<open>A pipe is the dictionary with the keys \<^verbatim>\<open>'x'\<close>, \<^verbatim>\<open>'top_height'\<close>,
  \<^verbatim>\<open>'bottom_height'\<close> and \<^verbatim>\<open>'passed'\<close>; no key is ever added or removed.\<close>

record pipe =
  x :: int
  top_height :: int
  bottom_height :: int
  passed :: bool

definition max_top_pipe_height :: int where
  "max_top_pipe_height = SCREEN_HEIGHT - GROUND_HEIGHT - PIPE_GAP - 50"

definition min_top_pipe_height :: int where
  "min_top_pipe_height = 50"

text \<open>
  \<^verbatim>\<open>create_pipe\<close> appends to the global list. Its first argument is the value that
  \<^verbatim>\<open>random.randint(min_top_pipe_height, max_top_pipe_height)\<close> returned, which the
  library promises to lie between the two bounds, both included.
\<close>

definition create_pipe :: "int \<Rightarrow> pipe list \<Rightarrow> pipe list" where
  "create_pipe top_pipe_height ps =
     (let bottom_pipe_height = SCREEN_HEIGHT - GROUND_HEIGHT - top_pipe_height - PIPE_GAP
      in ps @ [\<lparr>x = SCREEN_WIDTH, top_height = top_pipe_height,
                bottom_height = bottom_pipe_height, passed = False\<rparr>])"

text \<open>\<^verbatim>\<open>move_pipes\<close>: the loop shifts every pipe in place, the comprehension keeps the
  pipes whose right edge is still on the screen.\<close>

definition move_pipes :: "pipe list \<Rightarrow> pipe list" where
  "move_pipes ps =
     filter (\<lambda>p. x p + PIPE_WIDTH > 0) (map (\<lambda>p. p\<lparr>x := x p - PIPE_SPEED\<rparr>) ps)"

definition top_pipe_rect :: "pipe \<Rightarrow> rect" where
  "top_pipe_rect p = Rect (x p) 0 PIPE_WIDTH (top_height p)"

definition bottom_pipe_rect :: "pipe \<Rightarrow> rect" where
  "bottom_pipe_rect p =
     Rect (x p) (SCREEN_HEIGHT - bottom_height p - GROUND_HEIGHT) PIPE_WIDTH (bottom_height p)"

text \<open>\<^verbatim>\<open>check_collision\<close>: the ground test first, then the loop over the pipes with its
  early return.\<close>

fun pipe_collision :: "rect \<Rightarrow> pipe list \<Rightarrow> bool" where
  "pipe_collision bird_rect [] = False"
| "pipe_collision bird_rect (p # ps) =
     (if colliderect bird_rect (top_pipe_rect p) \<or> colliderect bird_rect (bottom_pipe_rect p)
      then True
      else pipe_collision bird_rect ps)"

definition check_collision :: "rect \<Rightarrow> pipe list \<Rightarrow> bool" where
  "check_collision bird_rect ps =
     (if bottom bird_rect \<ge> ground_y then True else pipe_collision bird_rect ps)"

text \<open>
  \<^verbatim>\<open>update_score\<close> walks the list once, adds one to the running score for each pipe that
  is past the bird and not yet marked, and marks that dictionary in place. The model
  returns the score together with the list as the loop leaves it.
\<close>

fun update_score :: "rect \<Rightarrow> pipe list \<Rightarrow> int \<Rightarrow> int \<times> pipe list" where
  "update_score bird_rect [] current_score = (current_score, [])"
| "update_score bird_rect (p # ps) current_score =
     (if x p + PIPE_WIDTH < left bird_rect \<and> \<not> passed p
      then (case update_score bird_rect ps (current_score + 1) of
              (sc, ps') \<Rightarrow> (sc, p\<lparr>passed := True\<rparr> # ps'))
      else (case update_score bird_rect ps current_score of
              (sc, ps') \<Rightarrow> (sc, p # ps')))"

subsection \<open>Game state and events (lines 36-52, 150-170)\<close>

record state =
  bird_y :: rat
  bird_velocity :: rat
  pipes :: "pipe list"
  score :: int
  game_active :: bool
  last_pipe_spawn_time :: int
  running :: bool

text \<open>The state before the loop; the argument is the clock reading of line 52.\<close>

definition initial_state :: "int \<Rightarrow> state" where
  "initial_state t0 =
     \<lparr>bird_y = of_int (SCREEN_HEIGHT div 2), bird_velocity = 0, pipes = [], score = 0,
      game_active = False, last_pipe_spawn_time = t0, running = True\<rparr>"

datatype key = K_SPACE | K_OTHER nat

datatype event = QUIT | KEYDOWN key | OTHER_EVENT nat

text \<open>
  One event of the queue (lines 155-169). \<open>ticks\<close> is what \<^verbatim>\<open>pygame.time.get_ticks()\<close>
  returns on line 166; the loop reads it at most once per frame, since a restart makes the
  game active and every later SPACE of the same frame is a jump.
\<close>

definition handle_event :: "int \<Rightarrow> event \<Rightarrow> state \<Rightarrow> state" where
  "handle_event ticks e s =
     (let s1 = (if e = QUIT then s\<lparr>running := False\<rparr> else s)
      in case e of
           KEYDOWN k \<Rightarrow>
             if k = K_SPACE then
               if \<not> game_active s1 then
                 s1\<lparr>bird_y := of_int (SCREEN_HEIGHT div 2), bird_velocity := 0, pipes := [],
                    score := 0, game_active := True, last_pipe_spawn_time := ticks\<rparr>
               else s1\<lparr>bird_velocity := jump_power\<rparr>
             else s1
         | _ \<Rightarrow> s1)"

definition handle_events :: "int \<Rightarrow> event list \<Rightarrow> state \<Rightarrow> state" where
  "handle_events ticks evs s = fold (handle_event ticks) evs s"

subsection \<open>Game logic of one frame (lines 172-199)\<close>

text \<open>Lines 174-180: gravity, integration, clamp at the top.\<close>

definition apply_gravity :: "state \<Rightarrow> state" where
  "apply_gravity s =
     (let v = bird_velocity s + gravity;
          y = bird_y s + v
      in if y < 0 then s\<lparr>bird_y := 0, bird_velocity := 0\<rparr>
         else s\<lparr>bird_y := y, bird_velocity := v\<rparr>)"

text \<open>Lines 183-186: spawn a pipe when the timer has run out. \<open>current_time\<close> is the
  clock reading of line 183, \<open>r\<close> the random height \<^verbatim>\<open>create_pipe\<close> would draw.\<close>

definition spawn_pipe :: "int \<Rightarrow> int \<Rightarrow> state \<Rightarrow> state" where
  "spawn_pipe current_time r s =
     (if current_time - last_pipe_spawn_time s > PIPE_SPAWN_INTERVAL
      then s\<lparr>pipes := create_pipe r (pipes s), last_pipe_spawn_time := current_time\<rparr>
      else s)"

text \<open>Line 192: the bird's rectangle; \<^verbatim>\<open>bird_y\<close> is a float there.\<close>

definition bird_rect_of :: "state \<Rightarrow> rect" where
  "bird_rect_of s = Rect bird_x (int_of_float (bird_y s)) bird_width bird_height"

text \<open>Lines 189-199: move the pipes, test the collision, update the score. The score is
  updated whatever the collision test said.\<close>

definition resolve :: "state \<Rightarrow> state" where
  "resolve s =
     (let ps = move_pipes (pipes s);
          bird_rect = bird_rect_of s;
          active = (if check_collision bird_rect ps then False else game_active s)
      in case update_score bird_rect ps (score s) of
           (sc, ps') \<Rightarrow> s\<lparr>pipes := ps', game_active := active, score := sc\<rparr>)"

definition game_logic :: "int \<Rightarrow> int \<Rightarrow> state \<Rightarrow> state" where
  "game_logic current_time r s = resolve (spawn_pipe current_time r (apply_gravity s))"


subsection \<open>Frames and runs (lines 153-220)\<close>

text \<open>What one iteration of the loop reads from outside: the event queue, the clock at
  a restart, the clock in the game logic, and the random pipe height.\<close>

record frame_input =
  events :: "event list"
  event_ticks :: int
  logic_ticks :: int
  randint_result :: int

definition after_events :: "frame_input \<Rightarrow> state \<Rightarrow> state" where
  "after_events inp s = handle_events (event_ticks inp) (events inp) s"

definition frame :: "frame_input \<Rightarrow> state \<Rightarrow> state" where
  "frame inp s =
     (let s1 = after_events inp s
      in if game_active s1 then game_logic (logic_ticks inp) (randint_result inp) s1 else s1)"

text \<open>The loop condition is tested before each iteration; a QUIT event lets the
  iteration it arrives in finish.\<close>

fun run :: "frame_input list \<Rightarrow> state \<Rightarrow> state" where
  "run [] s = s"
| "run (inp # inps) s = (if running s then run inps (frame inp s) else s)"

text \<open>Lines 207-215: which of the three screens the frame draws.\<close>

datatype screen = Playing | GameOverScreen | StartScreen

definition screen_of :: "state \<Rightarrow> screen" where
  "screen_of s =
     (if game_active s then Playing
      else if score s > 0 then GameOverScreen
      else StartScreen)"

subsection \<open>Concrete frames and states\<close>

text \<open>Inputs and states on which the theorems below are evaluated: a frame with an empty
  event queue, a frame in which SPACE is pressed, a frame without events at a given clock
  reading and random height, a bird just under the top edge, a bird resting on the ground
  line next to a pipe about to pass, a SPACE press at a given clock reading, a number of
  frames without events 17 ms apart, a first attempt in which one pipe is spawned and the
  bird falls for 32 ticks, that attempt with the tick in which the bird reaches the ground,
  the states before and after that tick, a bird one tick from the top segment of a pipe,
  and a bird rectangle with a pipe three ticks to its right.\<close>

definition idle_frame :: frame_input where
  "idle_frame = \<lparr>events = [], event_ticks = 0, logic_ticks = 0, randint_result = 50\<rparr>"

definition space_frame :: frame_input where
  "space_frame = \<lparr>events = [KEYDOWN K_SPACE], event_ticks = 0, logic_ticks = 0,
                   randint_result = 50\<rparr>"

definition spawn_frame :: "int \<Rightarrow> int \<Rightarrow> frame_input" where
  "spawn_frame t h = \<lparr>events = [], event_ticks = t, logic_ticks = t, randint_result = h\<rparr>"

definition near_top :: state where
  "near_top = \<lparr>bird_y = 2, bird_velocity = 0, pipes = [], score = 0, game_active = True,
               last_pipe_spawn_time = 0, running = True\<rparr>"

definition on_ground :: state where
  "on_ground = \<lparr>bird_y = 670, bird_velocity = 0,
                pipes = [\<lparr>x = 21, top_height = 100, bottom_height = 400, passed = False\<rparr>],
                score = 4, game_active = True, last_pipe_spawn_time = 0, running = True\<rparr>"

definition restart_frame :: "int \<Rightarrow> frame_input" where
  "restart_frame t = \<lparr>events = [KEYDOWN K_SPACE], event_ticks = t, logic_ticks = t,
                       randint_result = 50\<rparr>"

fun idle_frames :: "int \<Rightarrow> nat \<Rightarrow> frame_input list" where
  "idle_frames t 0 = []"
| "idle_frames t (Suc n) = spawn_frame t 50 # idle_frames (t + 17) n"

definition approach_inputs :: "frame_input list" where
  "approach_inputs = space_frame # spawn_frame 1501 100 # idle_frames 1518 30"

definition crash_inputs :: "frame_input list" where
  "crash_inputs = approach_inputs @ [spawn_frame 2028 50]"

definition falling :: state where
  "falling = \<lparr>bird_y = 664, bird_velocity = 16,
               pipes = [\<lparr>x = 507, top_height = 100, bottom_height = 400, passed = False\<rparr>],
               score = 0, game_active = True, last_pipe_spawn_time = 1501, running = True\<rparr>"

definition at_pipe :: state where
  "at_pipe = \<lparr>bird_y = 90, bird_velocity = - 1 / 2,
               pipes = [\<lparr>x = 123, top_height = 100, bottom_height = 400, passed = False\<rparr>],
               score = 2, game_active = True, last_pipe_spawn_time = 0, running = True\<rparr>"

definition crashed :: state where
  "crashed = \<lparr>bird_y = 1361 / 2, bird_velocity = 33 / 2,
               pipes = [\<lparr>x = 504, top_height = 100, bottom_height = 400, passed = False\<rparr>],
               score = 0, game_active = False, last_pipe_spawn_time = 1501, running = True\<rparr>"



lemmas game_constants =
  SCREEN_WIDTH_def SCREEN_HEIGHT_def GROUND_HEIGHT_def PIPE_WIDTH_def PIPE_GAP_def
  PIPE_SPAWN_INTERVAL_def PIPE_SPEED_def bird_width_def bird_height_def bird_x_def
  gravity_def jump_power_def ground_y_def

lemmas model_simps =
  game_constants Rect_def int_of_float_def bottom_def right_def colliderect_def create_pipe_def
  move_pipes_def top_pipe_rect_def bottom_pipe_rect_def check_collision_def initial_state_def
  handle_event_def handle_events_def apply_gravity_def spawn_pipe_def bird_rect_of_def
  resolve_def game_logic_def after_events_def frame_def max_top_pipe_height_def
  min_top_pipe_height_def screen_of_def Let_def

lemmas input_simps =
  idle_frame_def space_frame_def spawn_frame_def near_top_def on_ground_def
  crashed_def restart_frame_def falling_def at_pipe_def

section \<open>Auxiliary facts\<close>

lemma update_score_closed:
  "update_score r ps sc =
     (sc + int (length (filter (\<lambda>p. x p + PIPE_WIDTH < left r \<and> \<not> passed p) ps)),
      map (\<lambda>p. if x p + PIPE_WIDTH < left r \<and> \<not> passed p then p\<lparr>passed := True\<rparr> else p) ps)"
  by (induction ps arbitrary: sc) simp_all


lemma handle_event_other:
  "e \<noteq> KEYDOWN K_SPACE \<Longrightarrow> handle_event t e s = (if e = QUIT then s\<lparr>running := False\<rparr> else s)"
  by (cases e) (auto simp: handle_event_def)

lemma handle_events_no_space:
  "KEYDOWN K_SPACE \<notin> set evs \<Longrightarrow> \<exists>b. handle_events t evs s = s\<lparr>running := b\<rparr>"
proof (induction evs arbitrary: s)
  case Nil
  have "s = s\<lparr>running := running s\<rparr>" by simp
  then show ?case unfolding handle_events_def by (metis fold_simps(1))
next
  case (Cons e evs)
  then have e: "e \<noteq> KEYDOWN K_SPACE" and evs: "KEYDOWN K_SPACE \<notin> set evs" by auto
  from Cons.IH [OF evs, of "handle_event t e s"]
  obtain b where b: "handle_events t evs (handle_event t e s) = (handle_event t e s)\<lparr>running := b\<rparr>"
    by blast
  have "handle_events t (e # evs) s = handle_events t evs (handle_event t e s)"
    by (simp add: handle_events_def)
  with b e show ?case
    by (auto simp: handle_event_other)
qed



lemma game_logic_pipes:
  "pipes (game_logic now r s) =
     map (\<lambda>p. if x p + PIPE_WIDTH < bird_x \<and> \<not> passed p then p\<lparr>passed := True\<rparr> else p)
       (move_pipes (pipes (spawn_pipe now r s)))"
  by (simp add: game_logic_def resolve_def Let_def update_score_closed bird_rect_of_def Rect_def
      spawn_pipe_def apply_gravity_def)

lemma game_logic_score:
  "score (game_logic now r s) =
     score s + int (length (filter (\<lambda>p. x p + PIPE_WIDTH < bird_x \<and> \<not> passed p)
       (move_pipes (pipes (spawn_pipe now r s)))))"
  by (simp add: game_logic_def resolve_def Let_def update_score_closed bird_rect_of_def Rect_def
      spawn_pipe_def apply_gravity_def)

lemma game_logic_active:
  "game_active (game_logic now r s) \<longleftrightarrow>
     game_active s \<and> \<not> check_collision (bird_rect_of (apply_gravity s)) (move_pipes (pipes (spawn_pipe now r s)))"
  by (simp add: game_logic_def resolve_def Let_def update_score_closed bird_rect_of_def Rect_def
      spawn_pipe_def apply_gravity_def)

lemma game_logic_bird:
  "bird_y (game_logic now r s) = bird_y (apply_gravity s) \<and>
   bird_velocity (game_logic now r s) = bird_velocity (apply_gravity s)"
  by (simp add: game_logic_def resolve_def Let_def update_score_closed bird_rect_of_def Rect_def
      spawn_pipe_def apply_gravity_def)


lemma int_of_float_ge:
  "of_int n \<le> q \<Longrightarrow> 0 \<le> n \<Longrightarrow> n \<le> int_of_float q"
  by (simp add: int_of_float_def le_floor_iff)

lemma run_append: "run (as @ bs) s = run bs (run as s)"
proof (induction as arbitrary: s)
  case Nil
  show ?case by simp
next
  case (Cons a as)
  show ?case
  proof (cases "running s")
    case True
    with Cons.IH show ?thesis by simp
  next
    case False
    then show ?thesis by (cases bs) simp_all
  qed
qed

lemma before_crash: "run approach_inputs (initial_state 0) = falling"
  by (simp add: model_simps input_simps approach_inputs_def eval_nat_numeral)

lemma first_attempt_crash: "run crash_inputs (initial_state 0) = crashed"
  unfolding crash_inputs_def run_append before_crash
  by (simp add: model_simps input_simps)

lemma handle_event_pipes:
  "pipes (handle_event t e s) = pipes s \<or> pipes (handle_event t e s) = []"
  by (cases e) (auto simp: handle_event_def)

lemma handle_events_pipes:
  "pipes (handle_events t evs s) = pipes s \<or> pipes (handle_events t evs s) = []"
proof (induction evs arbitrary: s)
  case Nil
  show ?case by (simp add: handle_events_def)
next
  case (Cons e evs)
  have step: "handle_events t (e # evs) s = handle_events t evs (handle_event t e s)"
    by (simp add: handle_events_def)
  from Cons.IH [of "handle_event t e s"] handle_event_pipes [of t e s]
  show ?case unfolding step by auto
qed

lemma spawn_pipe_pipes:
  "pipes (spawn_pipe now r s) =
     (if now - last_pipe_spawn_time s > PIPE_SPAWN_INTERVAL
      then pipes s @ [\<lparr>x = SCREEN_WIDTH, top_height = r,
                        bottom_height = SCREEN_HEIGHT - GROUND_HEIGHT - r - PIPE_GAP,
                        passed = False\<rparr>]
      else pipes s)"
  by (simp add: spawn_pipe_def create_pipe_def)

lemma sorted_move_pipes:
  assumes "sorted_wrt (\<lambda>p q. x p < x q) ps"
  shows "sorted_wrt (\<lambda>p q. x p < x q) (move_pipes ps)"
proof -
  have "sorted_wrt (\<lambda>p q. x p < x q) (map (\<lambda>p. p\<lparr>x := x p - PIPE_SPEED\<rparr>) ps)"
    using assms by (simp add: sorted_wrt_map)
  then show ?thesis unfolding move_pipes_def by (rule sorted_wrt_filter)
qed

lemma move_pipes_bound:
  assumes "\<forall>p\<in>set ps. x p \<le> b"
  shows "\<forall>p\<in>set (move_pipes ps). x p \<le> b - PIPE_SPEED"
  using assms by (auto simp: move_pipes_def)

lemma game_logic_ordered:
  assumes "sorted_wrt (\<lambda>p q. x p < x q) (pipes s)"
    and "\<forall>p\<in>set (pipes s). x p \<le> SCREEN_WIDTH - PIPE_SPEED"
  shows "sorted_wrt (\<lambda>p q. x p < x q) (pipes (game_logic now r s))
       \<and> (\<forall>p\<in>set (pipes (game_logic now r s)). x p \<le> SCREEN_WIDTH - PIPE_SPEED)"
proof -
  let ?ps = "pipes (spawn_pipe now r s)"
  have sorted: "sorted_wrt (\<lambda>p q. x p < x q) ?ps"
    using assms by (auto simp: spawn_pipe_pipes sorted_wrt_append game_constants)
  have bound: "\<forall>p\<in>set ?ps. x p \<le> SCREEN_WIDTH"
    using assms(2) by (auto simp: spawn_pipe_pipes game_constants)
  have 1: "sorted_wrt (\<lambda>p q. x p < x q) (pipes (game_logic now r s))"
    unfolding game_logic_pipes using sorted_move_pipes [OF sorted]
    by (simp add: sorted_wrt_map if_distrib [of x] cong: if_cong)
  have 2: "\<forall>p\<in>set (pipes (game_logic now r s)). x p \<le> SCREEN_WIDTH - PIPE_SPEED"
    unfolding game_logic_pipes using move_pipes_bound [OF bound] by auto
  from 1 2 show ?thesis by blast
qed

lemma frame_ordered:
  assumes "sorted_wrt (\<lambda>p q. x p < x q) (pipes s)"
    and "\<forall>p\<in>set (pipes s). x p \<le> SCREEN_WIDTH - PIPE_SPEED"
  shows "sorted_wrt (\<lambda>p q. x p < x q) (pipes (frame inp s))
       \<and> (\<forall>p\<in>set (pipes (frame inp s)). x p \<le> SCREEN_WIDTH - PIPE_SPEED)"
proof -
  let ?a = "after_events inp s"
  have a: "sorted_wrt (\<lambda>p q. x p < x q) (pipes ?a)
           \<and> (\<forall>p\<in>set (pipes ?a). x p \<le> SCREEN_WIDTH - PIPE_SPEED)"
    using assms handle_events_pipes [of "event_ticks inp" "events inp" s]
    unfolding after_events_def by auto
  show ?thesis
  proof (cases "game_active ?a")
    case True
    then have "frame inp s = game_logic (logic_ticks inp) (randint_result inp) ?a"
      by (simp add: frame_def Let_def)
    with game_logic_ordered [OF conjunct1 [OF a] conjunct2 [OF a]] show ?thesis by simp
  next
    case False
    then have "frame inp s = ?a" by (simp add: frame_def Let_def)
    with a show ?thesis by simp
  qed
qed

lemma run_ordered:
  assumes "sorted_wrt (\<lambda>p q. x p < x q) (pipes s)"
    and "\<forall>p\<in>set (pipes s). x p \<le> SCREEN_WIDTH - PIPE_SPEED"
  shows "sorted_wrt (\<lambda>p q. x p < x q) (pipes (run inps s))
       \<and> (\<forall>p\<in>set (pipes (run inps s)). x p \<le> SCREEN_WIDTH - PIPE_SPEED)"
  using assms
proof (induction inps arbitrary: s)
  case Nil
  then show ?case by simp
next
  case (Cons i inps)
  from frame_ordered [OF Cons.prems] Cons.IH [of "frame i s"] Cons.prems
  show ?case by simp
qed


lemma game_logic_spawned:
  assumes "PIPE_SPAWN_INTERVAL < now - last_pipe_spawn_time s"
  shows "pipes (game_logic now r s) =
           pipes (resolve (apply_gravity s))
           @ [\<lparr>x = SCREEN_WIDTH - PIPE_SPEED, top_height = r,
               bottom_height = SCREEN_HEIGHT - GROUND_HEIGHT - r - PIPE_GAP, passed = False\<rparr>]"
proof -
  have "pipes (resolve (apply_gravity s)) =
          map (\<lambda>p. if x p + PIPE_WIDTH < bird_x \<and> \<not> passed p then p\<lparr>passed := True\<rparr> else p)
            (move_pipes (pipes s))"
    by (simp add: resolve_def Let_def update_score_closed bird_rect_of_def Rect_def
        apply_gravity_def)
  then show ?thesis
    using assms by (simp add: game_logic_pipes spawn_pipe_pipes move_pipes_def game_constants)
qed

lemma game_logic_heights:
  "map (\<lambda>p. (top_height p, bottom_height p)) (pipes (game_logic now r s)) =
   map (\<lambda>p. (top_height p, bottom_height p))
     (filter (\<lambda>p. 0 < x p - PIPE_SPEED + PIPE_WIDTH) (pipes (spawn_pipe now r s)))"
  by (simp add: game_logic_pipes move_pipes_def filter_map comp_def if_distrib cong: if_cong)

lemma game_logic_heights_inv:
  assumes "\<forall>p\<in>set (pipes s). Q (top_height p) (bottom_height p)"
    and "Q r (SCREEN_HEIGHT - GROUND_HEIGHT - r - PIPE_GAP)"
  shows "\<forall>p\<in>set (pipes (game_logic now r s)). Q (top_height p) (bottom_height p)"
proof -
  have "\<forall>p\<in>set (pipes (spawn_pipe now r s)). Q (top_height p) (bottom_height p)"
    using assms by (auto simp: spawn_pipe_pipes)
  then show ?thesis
    unfolding game_logic_pipes by (auto simp: move_pipes_def)
qed

lemma frame_heights_inv:
  assumes "\<forall>p\<in>set (pipes s). Q (top_height p) (bottom_height p)"
    and "Q (randint_result inp)
           (SCREEN_HEIGHT - GROUND_HEIGHT - randint_result inp - PIPE_GAP)"
  shows "\<forall>p\<in>set (pipes (frame inp s)). Q (top_height p) (bottom_height p)"
proof -
  let ?a = "after_events inp s"
  have a: "\<forall>p\<in>set (pipes ?a). Q (top_height p) (bottom_height p)"
    using assms(1) handle_events_pipes [of "event_ticks inp" "events inp" s]
    unfolding after_events_def by auto
  show ?thesis
  proof (cases "game_active ?a")
    case True
    then have "frame inp s = game_logic (logic_ticks inp) (randint_result inp) ?a"
      by (simp add: frame_def Let_def)
    with game_logic_heights_inv [of ?a Q, OF a assms(2)] show ?thesis by simp
  next
    case False
    then have "frame inp s = ?a" by (simp add: frame_def Let_def)
    with a show ?thesis by simp
  qed
qed

lemma run_heights_inv:
  assumes "\<forall>p\<in>set (pipes s). Q (top_height p) (bottom_height p)"
    and "\<forall>i\<in>set inps. Q (randint_result i)
                          (SCREEN_HEIGHT - GROUND_HEIGHT - randint_result i - PIPE_GAP)"
  shows "\<forall>p\<in>set (pipes (run inps s)). Q (top_height p) (bottom_height p)"
  using assms
proof (induction inps arbitrary: s)
  case Nil
  then show ?case by simp
next
  case (Cons i inps)
  from Cons.prems(2) have i: "Q (randint_result i)
      (SCREEN_HEIGHT - GROUND_HEIGHT - randint_result i - PIPE_GAP)"
    and rest: "\<forall>i\<in>set inps. Q (randint_result i)
      (SCREEN_HEIGHT - GROUND_HEIGHT - randint_result i - PIPE_GAP)" by simp_all
  from Cons.IH [OF frame_heights_inv [of s Q, OF Cons.prems(1) i] rest] Cons.prems(1)
  show ?case by simp
qed









section \<open>The claims\<close>

text \<open>
  C1. On every tick in which the game is active when the game logic runs, the velocity is
  first increased by the gravity constant one half and the new velocity is then added to
  the vertical position; when the resulting position is negative, position and velocity are
  both set to zero.
\<close>

theorem gravity_integrate_clamp:
  assumes "s1 = after_events inp s" and "game_active s1"
  shows "bird_velocity (frame inp s) =
           (if bird_y s1 + (bird_velocity s1 + 1 / 2) < 0 then 0 else bird_velocity s1 + 1 / 2)
       \<and> bird_y (frame inp s) =
           (if bird_y s1 + (bird_velocity s1 + 1 / 2) < 0 then 0
            else bird_y s1 + (bird_velocity s1 + 1 / 2))"
  using assms
  by (simp add: frame_def Let_def game_logic_bird apply_gravity_def gravity_def)

theorem gravity_integrate_clamp_witness:
  "game_active (after_events space_frame near_top)
   \<and> bird_velocity (after_events space_frame near_top) = - 9
   \<and> bird_velocity (frame space_frame near_top) = 0
   \<and> bird_y (frame space_frame near_top) = 0"
  using gravity_integrate_clamp [of "after_events space_frame near_top" space_frame near_top]
  by (simp add: after_events_def handle_events_def handle_event_def input_simps jump_power_def)







text \<open>
  C4. Along every run in which the random generator keeps to the bounds it is called with,
  every pipe in the list has top height + gap (200) + bottom height + ground height (100)
  equal to the screen height (800), a top height of at least 50 and a bottom height of at
  least 50; and an active tick leaves the heights of the pipes that stay in the list as
  they were, in the same order.
\<close>

theorem pipe_heights_fill_screen:
  assumes "\<forall>i\<in>set inps. min_top_pipe_height \<le> randint_result i
                         \<and> randint_result i \<le> max_top_pipe_height"
  shows "(\<forall>p\<in>set (pipes (run inps (initial_state t0))).
            top_height p + PIPE_GAP + bottom_height p + GROUND_HEIGHT = SCREEN_HEIGHT
          \<and> top_height p + 200 + bottom_height p + 100 = 800
          \<and> 50 \<le> top_height p \<and> 50 \<le> bottom_height p)
       \<and> map (\<lambda>p. (top_height p, bottom_height p)) (pipes (game_logic now r s)) =
         map (\<lambda>p. (top_height p, bottom_height p))
           (filter (\<lambda>p. 0 < x p - PIPE_SPEED + PIPE_WIDTH) (pipes (spawn_pipe now r s)))"
proof -
  let ?Q = "\<lambda>t b. t + PIPE_GAP + b + GROUND_HEIGHT = SCREEN_HEIGHT
                 \<and> t + 200 + b + 100 = 800 \<and> 50 \<le> t \<and> (50::int) \<le> b"
  have init: "\<forall>p\<in>set (pipes (initial_state t0)). ?Q (top_height p) (bottom_height p)"
    by (simp add: initial_state_def)
  have rand: "\<forall>i\<in>set inps. ?Q (randint_result i)
                (SCREEN_HEIGHT - GROUND_HEIGHT - randint_result i - PIPE_GAP)"
    using assms
    by (simp add: min_top_pipe_height_def max_top_pipe_height_def game_constants)
  from run_heights_inv [of "initial_state t0" ?Q inps, OF init rand] game_logic_heights
  show ?thesis by blast
qed

theorem pipe_heights_fill_screen_witness:
  "min_top_pipe_height \<le> randint_result space_frame
   \<and> randint_result space_frame \<le> max_top_pipe_height
   \<and> min_top_pipe_height \<le> randint_result (spawn_frame 1501 50)
   \<and> randint_result (spawn_frame 1501 50) \<le> max_top_pipe_height
   \<and> min_top_pipe_height \<le> randint_result (spawn_frame 3002 450)
   \<and> randint_result (spawn_frame 3002 450) \<le> max_top_pipe_height
   \<and> map (\<lambda>p. (top_height p, bottom_height p))
       (pipes (run [space_frame, spawn_frame 1501 50, spawn_frame 3002 450] (initial_state 0)))
     = [(50, 450), (450, 50)]
   \<and> list_all (\<lambda>p. top_height p + 200 + bottom_height p + 100 = 800
                   \<and> 50 \<le> top_height p \<and> 50 \<le> bottom_height p)
       (pipes (run [space_frame, spawn_frame 1501 50, spawn_frame 3002 450] (initial_state 0)))"
  using pipe_heights_fill_screen
          [of "[space_frame, spawn_frame 1501 50, spawn_frame 3002 450]" 0]
  by (simp add: model_simps input_simps)

text \<open>
  C5. A SPACE key press while the game is not active (before the first game or after a
  crash) puts the bird back at half the screen height with velocity zero, empties the pipe
  list, zeroes the score and makes the game active.
\<close>

theorem restart_resets_game:
  assumes "\<not> game_active s"
  shows "handle_event t (KEYDOWN K_SPACE) s =
           s\<lparr>bird_y := of_int (SCREEN_HEIGHT div 2), bird_velocity := 0, pipes := [], score := 0,
             game_active := True, last_pipe_spawn_time := t\<rparr>
       \<and> bird_y (handle_event t (KEYDOWN K_SPACE) s) = 400"
  using assms by (simp add: handle_event_def SCREEN_HEIGHT_def)

theorem restart_resets_game_witness:
  "\<not> game_active crashed
   \<and> handle_event 7 (KEYDOWN K_SPACE) crashed =
       \<lparr>bird_y = 400, bird_velocity = 0, pipes = [], score = 0, game_active = True,
        last_pipe_spawn_time = 7, running = True\<rparr>"
  using restart_resets_game [of crashed 7]
  by (simp add: input_simps SCREEN_HEIGHT_def)

text \<open>
  C6. A SPACE key press while the game is active sets the velocity to the constant -9
  whatever it was before, and changes nothing else: position, pipes, score and mode stay.
\<close>

theorem jump_sets_velocity_only:
  assumes "game_active s"
  shows "handle_event t (KEYDOWN K_SPACE) s = s\<lparr>bird_velocity := - 9\<rparr>"
  using assms by (simp add: handle_event_def jump_power_def)

theorem jump_sets_velocity_only_witness:
  "game_active on_ground
   \<and> handle_event 7 (KEYDOWN K_SPACE) on_ground = on_ground\<lparr>bird_velocity := - 9\<rparr>"
  using jump_sets_velocity_only [of on_ground 7]
  by (simp add: input_simps)

text \<open>
  C7, as stated, fails: the list is in spawn order, but the pipe spawned first is the one
  with the smaller horizontal position. After two spawns the first pipe is at 594 and the
  second at 597.
\<close>

theorem pipes_descending_counterexample:
  "pipes (run [space_frame, spawn_frame 1501 100] (initial_state 0)) =
     [\<lparr>x = 597, top_height = 100, bottom_height = 400, passed = False\<rparr>]
   \<and> pipes (run [space_frame, spawn_frame 1501 100, spawn_frame 3002 300] (initial_state 0)) =
     [\<lparr>x = 594, top_height = 100, bottom_height = 400, passed = False\<rparr>,
      \<lparr>x = 597, top_height = 300, bottom_height = 200, passed = False\<rparr>]
   \<and> \<not> sorted_wrt (\<lambda>p q. x p > x q)
         (pipes (run [space_frame, spawn_frame 1501 100, spawn_frame 3002 300] (initial_state 0)))"
  by (simp add: model_simps input_simps)

text \<open>
  C7, amended. At every point of a run the pipe list is in spawn order, a new pipe being
  appended behind the older ones, and this is the order of strictly ascending horizontal
  position: pipes spawned earlier have smaller x than pipes spawned later.
\<close>

theorem pipes_ascending_in_spawn_order:
  "sorted_wrt (\<lambda>p q. x p < x q) (pipes (run inps (initial_state t0)))
   \<and> (game_active (after_events inp s)
        \<and> PIPE_SPAWN_INTERVAL < logic_ticks inp - last_pipe_spawn_time (after_events inp s)
      \<longrightarrow> pipes (frame inp s) =
            pipes (resolve (apply_gravity (after_events inp s)))
            @ [\<lparr>x = SCREEN_WIDTH - PIPE_SPEED, top_height = randint_result inp,
                bottom_height = SCREEN_HEIGHT - GROUND_HEIGHT - randint_result inp - PIPE_GAP,
                passed = False\<rparr>])"
proof -
  have "sorted_wrt (\<lambda>p q. x p < x q) (pipes (run inps (initial_state t0)))"
    using run_ordered [of "initial_state t0" inps] by (simp add: initial_state_def)
  then show ?thesis
    by (simp add: frame_def Let_def game_logic_spawned)
qed

theorem pipes_ascending_in_spawn_order_witness:
  "game_active (after_events (spawn_frame 1501 100) on_ground)
   \<and> PIPE_SPAWN_INTERVAL
       < logic_ticks (spawn_frame 1501 100)
         - last_pipe_spawn_time (after_events (spawn_frame 1501 100) on_ground)
   \<and> pipes (frame (spawn_frame 1501 100) on_ground) =
       [\<lparr>x = 18, top_height = 100, bottom_height = 400, passed = True\<rparr>,
        \<lparr>x = 597, top_height = 100, bottom_height = 400, passed = False\<rparr>]
   \<and> sorted_wrt (\<lambda>p q. x p < x q) (pipes (run [space_frame] (initial_state 0)))"
  using pipes_ascending_in_spawn_order [of "[space_frame]" 0 "spawn_frame 1501 100" on_ground]
  by (simp add: model_simps input_simps)

text \<open>
  C8. When the game is not active, the game-over screen is drawn exactly when the score is
  positive, and with a score of zero the start screen is drawn; the witness is a first
  attempt that ends on the ground without a point.
\<close>

theorem game_over_screen_iff_scored:
  assumes "\<not> game_active s"
  shows "(screen_of s = GameOverScreen \<longleftrightarrow> score s > 0)
       \<and> (score s = 0 \<longrightarrow> screen_of s = StartScreen)"
  using assms by (simp add: screen_of_def)

theorem game_over_screen_iff_scored_witness:
  "\<not> game_active (run crash_inputs (initial_state 0))
   \<and> score (run crash_inputs (initial_state 0)) = 0
   \<and> screen_of (run crash_inputs (initial_state 0)) = StartScreen
   \<and> screen_of (run crash_inputs (initial_state 0)) \<noteq> GameOverScreen"
  unfolding first_attempt_crash
  using game_over_screen_iff_scored [of crashed]
  by (simp add: crashed_def)

text \<open>
  C9. In an active state with the bird exactly bird-height above the ground line and a
  velocity that is not negative, the update of the next tick puts the bottom of the bird's
  rectangle at or below the ground line and ends the run; the same holds for the whole
  frame when no SPACE key press arrives in it.
\<close>

theorem ground_contact_ends_run:
  assumes "game_active s"
    and "bird_y s = of_int (ground_y - bird_height)"
    and "0 \<le> bird_velocity s"
  shows "ground_y \<le> bottom (bird_rect_of (game_logic now r s))
       \<and> \<not> game_active (game_logic now r s)
       \<and> (KEYDOWN K_SPACE \<notin> set (events inp) \<longrightarrow>
            ground_y \<le> bottom (bird_rect_of (frame inp s)) \<and> \<not> game_active (frame inp s))"
proof -
  have y: "bird_y (apply_gravity s) = 670 + (bird_velocity s + 1 / 2)"
    using assms(2,3) by (simp add: apply_gravity_def Let_def game_constants)
  have "(670::int) \<le> int_of_float (bird_y (apply_gravity s))"
    by (rule int_of_float_ge) (use y assms(3) in simp_all)
  then have g: "ground_y \<le> bottom (bird_rect_of (apply_gravity s))"
    by (simp add: bird_rect_of_def Rect_def bottom_def game_constants)
  have rect: "bird_rect_of (game_logic t h s) = bird_rect_of (apply_gravity s)" for t h
    by (simp add: bird_rect_of_def game_logic_bird)
  have logic: "ground_y \<le> bottom (bird_rect_of (game_logic t h s))
               \<and> \<not> game_active (game_logic t h s)" for t h
    using g by (simp add: rect game_logic_active check_collision_def)
  have "ground_y \<le> bottom (bird_rect_of (frame inp s)) \<and> \<not> game_active (frame inp s)"
    if "KEYDOWN K_SPACE \<notin> set (events inp)"
  proof -
    from handle_events_no_space [OF that] obtain b
      where b: "after_events inp s = s\<lparr>running := b\<rparr>"
      unfolding after_events_def by blast
    have same: "game_logic t h (s\<lparr>running := b\<rparr>) = (game_logic t h s)\<lparr>running := b\<rparr>" for t h
      by (simp add: game_logic_def resolve_def spawn_pipe_def apply_gravity_def Let_def
          bird_rect_of_def split: prod.splits)
    show ?thesis
      using logic [of "logic_ticks inp" "randint_result inp"] assms(1) b
      by (simp add: frame_def Let_def same bird_rect_of_def)
  qed
  with logic show ?thesis by blast
qed

theorem ground_contact_ends_run_witness:
  "game_active on_ground
   \<and> bird_y on_ground = of_int (ground_y - bird_height)
   \<and> 0 \<le> bird_velocity on_ground
   \<and> KEYDOWN K_SPACE \<notin> set (events idle_frame)
   \<and> ground_y \<le> bottom (bird_rect_of (frame idle_frame on_ground))
   \<and> \<not> game_active (frame idle_frame on_ground)"
  using ground_contact_ends_run [of on_ground 0 50 idle_frame]
  by (simp add: input_simps game_constants)

text \<open>
  C10. On the tick in which a collision ends the run, the score update still runs after
  the mode is cleared: the score grows by the number of pipes that are past the bird and
  not yet marked, and a positive result is what the game-over screen shows.
\<close>

theorem death_tick_still_scores:
  assumes "s1 = after_events inp s" and "game_active s1"
    and "ps = move_pipes (pipes (spawn_pipe (logic_ticks inp) (randint_result inp) s1))"
    and "check_collision (bird_rect_of (apply_gravity s1)) ps"
  shows "\<not> game_active (frame inp s)
       \<and> score (frame inp s) =
           score s1 + int (length (filter (\<lambda>p. x p + PIPE_WIDTH < bird_x \<and> \<not> passed p) ps))
       \<and> (0 < score (frame inp s) \<longrightarrow> screen_of (frame inp s) = GameOverScreen)"
  using assms
  by (simp add: frame_def Let_def game_logic_active game_logic_score screen_of_def)

theorem death_tick_still_scores_witness:
  "game_active (after_events idle_frame on_ground)
   \<and> check_collision (bird_rect_of (apply_gravity (after_events idle_frame on_ground)))
        (move_pipes (pipes (spawn_pipe 0 50 (after_events idle_frame on_ground))))
   \<and> score on_ground = 4
   \<and> \<not> game_active (frame idle_frame on_ground)
   \<and> score (frame idle_frame on_ground) = 5
   \<and> screen_of (frame idle_frame on_ground) = GameOverScreen"
  using death_tick_still_scores [of "after_events idle_frame on_ground" idle_frame on_ground
                                    "move_pipes (pipes (spawn_pipe 0 50 (after_events idle_frame on_ground)))"]
  by (simp add: model_simps input_simps)

end
